theory Spec2Isabelle
  imports Main "HOL-Library.Word"
begin

unbundle bit_operations_syntax

section \<open>Errors of the generator\<close>

text \<open>
  Every way \<^verbatim>\<open>CodepointWidthDetector_triegen.py\<close> can abort is a value of \<open>error\<close>:
  \<^item> \<open>UnrecognizedGCB g\<close>: \<^verbatim>\<open>raise RuntimeError(f"unrecognized GCB: {char_gcb}")\<close>;
  \<^item> \<open>UnrecognizedEA a\<close>: \<^verbatim>\<open>raise RuntimeError(f"unrecognized ea: {char_ea}")\<close>;
  \<^item> \<open>ICUFailure code\<close>: the \<^verbatim>\<open>RuntimeError\<close> of \<^verbatim>\<open>check_error\<close>;
  \<^item> \<open>AssertionError\<close>: a failed \<^verbatim>\<open>assert\<close> (the interpreter run without \<^verbatim>\<open>-O\<close>,
    which would remove the assertions);
  \<^item> \<open>AttributeError\<close>: \<^verbatim>\<open>char_gc.startswith\<close> when \<^verbatim>\<open>char_gc\<close> is \<^verbatim>\<open>None\<close>;
  \<^item> \<open>TypeError\<close>: \<^verbatim>\<open>int(None, 16)\<close>;
  \<^item> \<open>ArgumentError\<close>: ctypes refusing an argument that is not an integer;
  \<^item> \<open>ValueError\<close>: \<^verbatim>\<open>int(s, 16)\<close> on a string that is not a hexadecimal literal.
\<close>

datatype error =
    UnrecognizedGCB "string option"
  | UnrecognizedEA "string option"
  | ICUFailure int
  | AssertionError
  | AttributeError
  | TypeError
  | ArgumentError
  | ValueError

section \<open>The packed value\<close>

datatype ClusterBreak =
    OTHER
  | CONTROL
  | EXTEND
  | PREPEND
  | ZERO_WIDTH_JOINER
  | REGIONAL_INDICATOR
  | HANGUL_L
  | HANGUL_V
  | HANGUL_T
  | HANGUL_LV
  | HANGUL_LVT
  | CONJUNCT_LINKER
  | EXTENDED_PICTOGRAPHIC

fun ClusterBreak_value :: "ClusterBreak \<Rightarrow> int" where
  "ClusterBreak_value OTHER = 0"
| "ClusterBreak_value CONTROL = 1"
| "ClusterBreak_value EXTEND = 2"
| "ClusterBreak_value PREPEND = 3"
| "ClusterBreak_value ZERO_WIDTH_JOINER = 4"
| "ClusterBreak_value REGIONAL_INDICATOR = 5"
| "ClusterBreak_value HANGUL_L = 6"
| "ClusterBreak_value HANGUL_V = 7"
| "ClusterBreak_value HANGUL_T = 8"
| "ClusterBreak_value HANGUL_LV = 9"
| "ClusterBreak_value HANGUL_LVT = 10"
| "ClusterBreak_value CONJUNCT_LINKER = 11"
| "ClusterBreak_value EXTENDED_PICTOGRAPHIC = 12"

datatype CharacterWidth = ZeroWidth | Narrow | Wide | Ambiguous

fun CharacterWidth_value :: "CharacterWidth \<Rightarrow> int" where
  "CharacterWidth_value ZeroWidth = 0"
| "CharacterWidth_value Narrow = 1"
| "CharacterWidth_value Wide = 2"
| "CharacterWidth_value Ambiguous = 3"

definition CLUSTER_BREAK_SHIFT :: nat where
  "CLUSTER_BREAK_SHIFT = 0"

definition CLUSTER_BREAK_MASK :: int where
  "CLUSTER_BREAK_MASK = 15"

definition CHARACTER_WIDTH_SHIFT :: nat where
  "CHARACTER_WIDTH_SHIFT = 6"

definition CHARACTER_WIDTH_MASK :: int where
  "CHARACTER_WIDTH_MASK = 3"

text \<open>
  \<^verbatim>\<open>build_trie_value\<close>: two assertions, then
  \<^verbatim>\<open>cb.value << CLUSTER_BREAK_SHIFT | width.value << CHARACTER_WIDTH_SHIFT\<close>
  on Python's unbounded integers (the shifts bind tighter than \<^verbatim>\<open>|\<close>).
\<close>

definition build_trie_value :: "ClusterBreak \<Rightarrow> CharacterWidth \<Rightarrow> error + int" where
  "build_trie_value cb width =
     (if ClusterBreak_value cb \<le> CLUSTER_BREAK_MASK then
        (if CharacterWidth_value width \<le> CHARACTER_WIDTH_MASK then
           Inr (push_bit CLUSTER_BREAK_SHIFT (ClusterBreak_value cb)
                OR push_bit CHARACTER_WIDTH_SHIFT (CharacterWidth_value width))
         else Inl AssertionError)
      else Inl AssertionError)"

text \<open>
  The extraction macros written into the generated header:
  \<^verbatim>\<open>INTO_CLUSTER_BREAK(x) = (x >> 0) & 15\<close> and
  \<^verbatim>\<open>INTO_CHARACTER_WIDTH(x) = (x >> 6) & 3\<close>.
\<close>

definition INTO_CLUSTER_BREAK :: "int \<Rightarrow> int" where
  "INTO_CLUSTER_BREAK x = drop_bit CLUSTER_BREAK_SHIFT x AND CLUSTER_BREAK_MASK"

definition INTO_CHARACTER_WIDTH :: "int \<Rightarrow> int" where
  "INTO_CHARACTER_WIDTH x = drop_bit CHARACTER_WIDTH_SHIFT x AND CHARACTER_WIDTH_MASK"

section \<open>Classification of one character element\<close>

text \<open>
  An XML attribute read with \<^verbatim>\<open>.get\<close> is a string or \<^verbatim>\<open>None\<close>.
  \<^verbatim>\<open>char.get(k) or group_k\<close> takes the group's attribute when the element's own is
  \<^verbatim>\<open>None\<close> or the empty string.
\<close>

definition py_or :: "string option \<Rightarrow> string option \<Rightarrow> string option" where
  "py_or a b = (case a of None \<Rightarrow> b | Some s \<Rightarrow> (if s = [] then b else Some s))"

definition startswith :: "string \<Rightarrow> string \<Rightarrow> bool" where
  "startswith s p = (take (length p) s = p)"

text \<open>The \<^verbatim>\<open>match char_gcb\<close> statement (source lines 212 to 239).\<close>

definition gcb_cluster_break :: "string option \<Rightarrow> error + ClusterBreak" where
  "gcb_cluster_break char_gcb =
     (if char_gcb = Some ''XX'' then Inr OTHER
      else if char_gcb = Some ''CR'' \<or> char_gcb = Some ''LF'' \<or> char_gcb = Some ''CN''
        then Inr CONTROL
      else if char_gcb = Some ''EX'' \<or> char_gcb = Some ''SM'' then Inr EXTEND
      else if char_gcb = Some ''PP'' then Inr PREPEND
      else if char_gcb = Some ''ZWJ'' then Inr ZERO_WIDTH_JOINER
      else if char_gcb = Some ''RI'' then Inr REGIONAL_INDICATOR
      else if char_gcb = Some ''L'' then Inr HANGUL_L
      else if char_gcb = Some ''V'' then Inr HANGUL_V
      else if char_gcb = Some ''T'' then Inr HANGUL_T
      else if char_gcb = Some ''LV'' then Inr HANGUL_LV
      else if char_gcb = Some ''LVT'' then Inr HANGUL_LVT
      else Inl (UnrecognizedGCB char_gcb))"

text \<open>\<^verbatim>\<open>if char_extpict == "Y": assert cb == ClusterBreak.OTHER; cb = EXTENDED_PICTOGRAPHIC\<close>.\<close>

definition extpict_override :: "string option \<Rightarrow> ClusterBreak \<Rightarrow> error + ClusterBreak" where
  "extpict_override char_extpict cb =
     (if char_extpict = Some ''Y'' then
        (if cb = OTHER then Inr EXTENDED_PICTOGRAPHIC else Inl AssertionError)
      else Inr cb)"

text \<open>\<^verbatim>\<open>if char_incb == "Linker": assert cb == ClusterBreak.EXTEND; cb = CONJUNCT_LINKER\<close>.\<close>

definition incb_override :: "string option \<Rightarrow> ClusterBreak \<Rightarrow> error + ClusterBreak" where
  "incb_override char_incb cb =
     (if char_incb = Some ''Linker'' then
        (if cb = EXTEND then Inr CONJUNCT_LINKER else Inl AssertionError)
      else Inr cb)"

text \<open>
  The cluster break of an element: the three statements above in the order of the source,
  the first failure ending the run.
\<close>

definition char_cluster_break ::
  "string option \<Rightarrow> string option \<Rightarrow> string option \<Rightarrow> error + ClusterBreak" where
  "char_cluster_break char_gcb char_extpict char_incb =
     (case gcb_cluster_break char_gcb of
        Inl e \<Rightarrow> Inl e
      | Inr cb \<Rightarrow>
          (case extpict_override char_extpict cb of
             Inl e \<Rightarrow> Inl e
           | Inr cb' \<Rightarrow> incb_override char_incb cb'))"

text \<open>The \<^verbatim>\<open>match char_ea\<close> statement (source lines 261 to 269).\<close>

definition ea_width :: "string option \<Rightarrow> error + CharacterWidth" where
  "ea_width char_ea =
     (if char_ea = Some ''N'' \<or> char_ea = Some ''Na'' \<or> char_ea = Some ''H'' then Inr Narrow
      else if char_ea = Some ''F'' \<or> char_ea = Some ''W'' then Inr Wide
      else if char_ea = Some ''A'' then Inr Ambiguous
      else Inl (UnrecognizedEA char_ea))"

text \<open>
  The width of an element (source lines 253 to 269). \<^verbatim>\<open>char_gc.startswith("M")\<close> is a
  method call on \<^verbatim>\<open>char_gc\<close>: with no general category on the element and on its group
  the call raises \<^verbatim>\<open>AttributeError\<close>.
\<close>

definition char_width ::
  "string option \<Rightarrow> string option \<Rightarrow> string option \<Rightarrow> string option
     \<Rightarrow> error + CharacterWidth" where
  "char_width char_gc char_emoji char_epres char_ea =
     (case char_gc of
        None \<Rightarrow> Inl AttributeError
      | Some gc \<Rightarrow>
          (if startswith gc ''M'' then Inr ZeroWidth
           else if char_emoji = Some ''Y'' \<and> char_epres = Some ''Y'' then Inr Wide
           else ea_width char_ea))"

section \<open>The code point trie of the ICU library\<close>

text \<open>
  The generator stores its values in a mutable code point trie of the ICU library, reached
  through ctypes. The source holds the declarations of the native functions and their
  Python wrappers; the native functions themselves are outside the repository. A native
  function is modelled as a function from the trie and the converted arguments to the
  \<^verbatim>\<open>UErrorCode\<close> it writes and the trie it leaves behind.
\<close>

type_synonym uint32 = "32 word"

definition U_ZERO_ERROR :: int where
  "U_ZERO_ERROR = 0"

definition U_ILLEGAL_ARGUMENT_ERROR :: int where
  "U_ILLEGAL_ARGUMENT_ERROR = 1"

definition MAX_UNICODE :: nat where
  "MAX_UNICODE = 0x10FFFF"

text \<open>
  The accumulator of the specification: the default (initial) value, the error value, and
  the values assigned so far; a code point with no assignment is a gap, which takes the
  default value when the trie is finalized.
\<close>

record UMutableCPTrie =
  initialValue :: uint32
  errorValue :: uint32
  assigned :: "nat \<rightharpoonup> uint32"

text \<open>
  The finalized trie: a value for every code point of \<open>[0, 0x10FFFF]\<close> and the value
  returned for every other query.
\<close>

record UCPTrie =
  data :: "nat \<Rightarrow> uint32"
  fallback :: uint32

text \<open>
  Modelled from the spec: the native \<^verbatim>\<open>umutablecptrie_open\<close> is missing. It creates
  the empty accumulator with its default value and its error value.
\<close>

definition icu_umutablecptrie_open :: "uint32 \<Rightarrow> uint32 \<Rightarrow> int \<times> UMutableCPTrie" where
  "icu_umutablecptrie_open initial_value error_value =
     (U_ZERO_ERROR,
      \<lparr>initialValue = initial_value, errorValue = error_value, assigned = Map.empty\<rparr>)"

text \<open>
  Modelled from the spec: the native \<^verbatim>\<open>umutablecptrie_set\<close> is missing. A code point is
  an integer of \<open>[0, 0x10FFFF]\<close>; any other argument is refused with an error code and the
  trie is left as it was. A later assignment overwrites an earlier one.
\<close>

definition icu_umutablecptrie_set ::
  "UMutableCPTrie \<Rightarrow> uint32 \<Rightarrow> uint32 \<Rightarrow> int \<times> UMutableCPTrie" where
  "icu_umutablecptrie_set trie c v =
     (if MAX_UNICODE < unat c then (U_ILLEGAL_ARGUMENT_ERROR, trie)
      else (U_ZERO_ERROR, trie\<lparr>assigned := (assigned trie)(unat c \<mapsto> v)\<rparr>))"

text \<open>
  Modelled from the spec: the native \<^verbatim>\<open>umutablecptrie_setRange\<close> is missing. The range
  is inclusive at both ends; a bound outside \<open>[0, 0x10FFFF]\<close> or a start above the end is
  refused. Every code point of the range is overwritten, no other is touched.
\<close>

definition icu_umutablecptrie_setRange ::
  "UMutableCPTrie \<Rightarrow> uint32 \<Rightarrow> uint32 \<Rightarrow> uint32 \<Rightarrow> int \<times> UMutableCPTrie" where
  "icu_umutablecptrie_setRange trie start end' v =
     (if MAX_UNICODE < unat start \<or> MAX_UNICODE < unat end' \<or> unat end' < unat start
      then (U_ILLEGAL_ARGUMENT_ERROR, trie)
      else (U_ZERO_ERROR,
            trie\<lparr>assigned :=
              (\<lambda>c. if unat start \<le> c \<and> c \<le> unat end' then Some v else assigned trie c)\<rparr>))"

text \<open>
  Modelled from the spec: the native \<^verbatim>\<open>umutablecptrie_buildImmutable\<close> is missing.
  Finalization covers all of \<open>[0, 0x10FFFF]\<close>, the gaps taking the default value, and
  stores every value, the error value too, in the selected value width
  (\<^verbatim>\<open>UCPTRIE_VALUE_BITS_16 = 0\<close>, \<^verbatim>\<open>UCPTRIE_VALUE_BITS_32 = 1\<close>,
  \<^verbatim>\<open>UCPTRIE_VALUE_BITS_8 = 2\<close>). The block layout, the deduplication and the serialized
  bytes do not change what a lookup returns and are left out.
\<close>

definition width_mask :: "int \<Rightarrow> uint32" where
  "width_mask width = (if width = 2 then 0xFF else if width = 0 then 0xFFFF else 0xFFFFFFFF)"

definition icu_umutablecptrie_buildImmutable ::
  "UMutableCPTrie \<Rightarrow> int \<Rightarrow> int \<Rightarrow> int \<times> UCPTrie" where
  "icu_umutablecptrie_buildImmutable trie typ width =
     (U_ZERO_ERROR,
      \<lparr>data = (\<lambda>c. (case assigned trie c of None \<Rightarrow> initialValue trie | Some v \<Rightarrow> v)
                    AND width_mask width),
       fallback = errorValue trie AND width_mask width\<rparr>)"

text \<open>
  Modelled from the spec: the lookup of the finalized trie (ICU's \<^verbatim>\<open>ucptrie_get\<close>) is
  missing; the generator never calls it, the consumer of the table does. It never fails
  for a code point of \<open>[0, 0x10FFFF]\<close> and returns the error value for any other query.
\<close>

definition ucptrie_get :: "UCPTrie \<Rightarrow> int \<Rightarrow> uint32" where
  "ucptrie_get trie c =
     (if 0 \<le> c \<and> c \<le> int MAX_UNICODE then data trie (nat c) else fallback trie)"

subsection \<open>The Python wrappers\<close>

text \<open>\<^verbatim>\<open>check_error\<close>: \<^verbatim>\<open>if error.value > 0: raise RuntimeError(...)\<close>.\<close>

definition check_error :: "int \<Rightarrow> error + unit" where
  "check_error err = (if 0 < err then Inl (ICUFailure err) else Inr ())"

text \<open>
  The wrappers pass Python integers to parameters declared \<^verbatim>\<open>c_uint32\<close>: ctypes keeps
  the low 32 bits and checks no overflow, which is \<open>word_of_int\<close>.
\<close>

definition umutablecptrie_open :: "int \<Rightarrow> int \<Rightarrow> error + UMutableCPTrie" where
  "umutablecptrie_open initial_value error_value =
     (case icu_umutablecptrie_open (word_of_int initial_value) (word_of_int error_value) of
        (err, trie) \<Rightarrow> (case check_error err of Inl e \<Rightarrow> Inl e | Inr _ \<Rightarrow> Inr trie))"

definition umutablecptrie_set :: "UMutableCPTrie \<Rightarrow> int \<Rightarrow> int \<Rightarrow> error + UMutableCPTrie" where
  "umutablecptrie_set mutable_trie c v =
     (case icu_umutablecptrie_set mutable_trie (word_of_int c) (word_of_int v) of
        (err, trie) \<Rightarrow> (case check_error err of Inl e \<Rightarrow> Inl e | Inr _ \<Rightarrow> Inr trie))"

definition umutablecptrie_setRange ::
  "UMutableCPTrie \<Rightarrow> int \<Rightarrow> int \<Rightarrow> int \<Rightarrow> error + UMutableCPTrie" where
  "umutablecptrie_setRange mutable_trie start end' v =
     (case icu_umutablecptrie_setRange mutable_trie
             (word_of_int start) (word_of_int end') (word_of_int v) of
        (err, trie) \<Rightarrow> (case check_error err of Inl e \<Rightarrow> Inl e | Inr _ \<Rightarrow> Inr trie))"

text \<open>
  The two enumerations of the source. The member \<^verbatim>\<open>UCPTRIE_TYPE_ANY = -1,\<close> ends in a
  comma, so its value is a one-element tuple and not an integer (likewise
  \<^verbatim>\<open>UCPTRIE_VALUE_BITS_ANY\<close>); ctypes refuses it for a \<^verbatim>\<open>c_int\<close> parameter.
\<close>

datatype UCPTrieType = UCPTRIE_TYPE_ANY | UCPTRIE_TYPE_FAST | UCPTRIE_TYPE_SMALL

fun UCPTrieType_value :: "UCPTrieType \<Rightarrow> int option" where
  "UCPTrieType_value UCPTRIE_TYPE_ANY = None"
| "UCPTrieType_value UCPTRIE_TYPE_FAST = Some 0"
| "UCPTrieType_value UCPTRIE_TYPE_SMALL = Some 1"

datatype UCPTrieValueWidth =
    UCPTRIE_VALUE_BITS_ANY
  | UCPTRIE_VALUE_BITS_16
  | UCPTRIE_VALUE_BITS_32
  | UCPTRIE_VALUE_BITS_8

fun UCPTrieValueWidth_value :: "UCPTrieValueWidth \<Rightarrow> int option" where
  "UCPTrieValueWidth_value UCPTRIE_VALUE_BITS_ANY = None"
| "UCPTrieValueWidth_value UCPTRIE_VALUE_BITS_16 = Some 0"
| "UCPTrieValueWidth_value UCPTRIE_VALUE_BITS_32 = Some 1"
| "UCPTrieValueWidth_value UCPTRIE_VALUE_BITS_8 = Some 2"

definition umutablecptrie_buildImmutable ::
  "UMutableCPTrie \<Rightarrow> UCPTrieType \<Rightarrow> UCPTrieValueWidth \<Rightarrow> error + UCPTrie" where
  "umutablecptrie_buildImmutable mutable_trie typ width =
     (case UCPTrieType_value typ of
        None \<Rightarrow> Inl ArgumentError
      | Some t \<Rightarrow>
          (case UCPTrieValueWidth_value width of
             None \<Rightarrow> Inl ArgumentError
           | Some w \<Rightarrow>
               (case icu_umutablecptrie_buildImmutable mutable_trie t w of
                  (err, trie) \<Rightarrow>
                    (case check_error err of Inl e \<Rightarrow> Inl e | Inr _ \<Rightarrow> Inr trie))))"

section \<open>The generator\<close>

text \<open>
  The attributes of a \<^verbatim>\<open>group\<close> element or of one of its children, as
  \<^verbatim>\<open>.get\<close> returns them.
\<close>

record element =
  attr_gc :: "string option"
  attr_GCB :: "string option"
  attr_InCB :: "string option"
  attr_Emoji :: "string option"
  attr_EPres :: "string option"
  attr_ExtPict :: "string option"
  attr_ea :: "string option"
  attr_cp :: "string option"
  attr_first_cp :: "string option"
  attr_last_cp :: "string option"

record group =
  group_attrs :: element
  children :: "element list"

text \<open>
  The packed value of one child (source lines 201 to 271): the effective attributes, the
  cluster break, the width, \<^verbatim>\<open>build_trie_value\<close>.
\<close>

definition char_value :: "element \<Rightarrow> element \<Rightarrow> error + int" where
  "char_value grp char =
     (let char_gc = py_or (attr_gc char) (attr_gc grp);
          char_gcb = py_or (attr_GCB char) (attr_GCB grp);
          char_incb = py_or (attr_InCB char) (attr_InCB grp);
          char_emoji = py_or (attr_Emoji char) (attr_Emoji grp);
          char_epres = py_or (attr_EPres char) (attr_EPres grp);
          char_extpict = py_or (attr_ExtPict char) (attr_ExtPict grp);
          char_ea = py_or (attr_ea char) (attr_ea grp)
      in case char_cluster_break char_gcb char_extpict char_incb of
           Inl e \<Rightarrow> Inl e
         | Inr cb \<Rightarrow>
             (case char_width char_gc char_emoji char_epres char_ea of
                Inl e \<Rightarrow> Inl e
              | Inr width \<Rightarrow> build_trie_value cb width))"

text \<open>
  A call of \<^verbatim>\<open>umutablecptrie_set\<close> or of \<^verbatim>\<open>umutablecptrie_setRange\<close> with its
  arguments.
\<close>

datatype submission = Set int int | SetRange int int int

definition submit :: "UMutableCPTrie \<Rightarrow> submission \<Rightarrow> error + UMutableCPTrie" where
  "submit mutable_trie s =
     (case s of
        Set c v \<Rightarrow> umutablecptrie_set mutable_trie c v
      | SetRange start end' v \<Rightarrow> umutablecptrie_setRange mutable_trie start end' v)"

text \<open>
  \<^verbatim>\<open>int(s, 16)\<close> is Python's own conversion. The model takes it on strings as the
  parameter \<open>parse_hex\<close>, so nothing proved depends on which strings it accepts; on
  \<^verbatim>\<open>None\<close> it raises \<^verbatim>\<open>TypeError\<close>.
\<close>

definition int16 :: "(string \<Rightarrow> error + int) \<Rightarrow> string option \<Rightarrow> error + int" where
  "int16 parse_hex s = (case s of None \<Rightarrow> Inl TypeError | Some str \<Rightarrow> parse_hex str)"

text \<open>
  The call one child ends in (source lines 275 to 282): \<^verbatim>\<open>umutablecptrie_set\<close> when
  it has a \<^verbatim>\<open>cp\<close> attribute, \<^verbatim>\<open>umutablecptrie_setRange\<close> from \<^verbatim>\<open>first-cp\<close> to
  \<^verbatim>\<open>last-cp\<close> otherwise.
\<close>

definition char_call ::
  "(string \<Rightarrow> error + int) \<Rightarrow> element \<Rightarrow> int \<Rightarrow> error + submission" where
  "char_call parse_hex char v =
     (case attr_cp char of
        Some cp \<Rightarrow> (case parse_hex cp of Inl e \<Rightarrow> Inl e | Inr c \<Rightarrow> Inr (Set c v))
      | None \<Rightarrow>
          (case int16 parse_hex (attr_first_cp char) of
             Inl e \<Rightarrow> Inl e
           | Inr cp_first \<Rightarrow>
               (case int16 parse_hex (attr_last_cp char) of
                  Inl e \<Rightarrow> Inl e
                | Inr cp_last \<Rightarrow> Inr (SetRange cp_first cp_last v))))"

text \<open>
  What one child submits (source lines 271 to 282): nothing when its value is the
  default (\<^verbatim>\<open>if value == initial_value: continue\<close>), its call otherwise.
\<close>

definition char_submission ::
  "(string \<Rightarrow> error + int) \<Rightarrow> int \<Rightarrow> element \<Rightarrow> element \<Rightarrow> error + submission option" where
  "char_submission parse_hex initial_value grp char =
     (case char_value grp char of
        Inl e \<Rightarrow> Inl e
      | Inr v \<Rightarrow>
          (if v = initial_value then Inr None
           else (case char_call parse_hex char v of Inl e \<Rightarrow> Inl e | Inr s \<Rightarrow> Inr (Some s))))"

definition process_char ::
  "(string \<Rightarrow> error + int) \<Rightarrow> int \<Rightarrow> UMutableCPTrie \<Rightarrow> element \<Rightarrow> element
     \<Rightarrow> error + UMutableCPTrie" where
  "process_char parse_hex initial_value mutable_trie grp char =
     (case char_submission parse_hex initial_value grp char of
        Inl e \<Rightarrow> Inl e
      | Inr None \<Rightarrow> Inr mutable_trie
      | Inr (Some s) \<Rightarrow> submit mutable_trie s)"

text \<open>\<^verbatim>\<open>for char in group\<close> and \<^verbatim>\<open>for group in root.findall(...)\<close>.\<close>

fun process_chars ::
  "(string \<Rightarrow> error + int) \<Rightarrow> int \<Rightarrow> UMutableCPTrie \<Rightarrow> element \<Rightarrow> element list
     \<Rightarrow> error + UMutableCPTrie" where
  "process_chars parse_hex initial_value mutable_trie grp [] = Inr mutable_trie"
| "process_chars parse_hex initial_value mutable_trie grp (char # chars) =
     (case process_char parse_hex initial_value mutable_trie grp char of
        Inl e \<Rightarrow> Inl e
      | Inr trie \<Rightarrow> process_chars parse_hex initial_value trie grp chars)"

fun process_groups ::
  "(string \<Rightarrow> error + int) \<Rightarrow> int \<Rightarrow> UMutableCPTrie \<Rightarrow> group list
     \<Rightarrow> error + UMutableCPTrie" where
  "process_groups parse_hex initial_value mutable_trie [] = Inr mutable_trie"
| "process_groups parse_hex initial_value mutable_trie (g # gs) =
     (case process_chars parse_hex initial_value mutable_trie (group_attrs g) (children g) of
        Inl e \<Rightarrow> Inl e
      | Inr trie \<Rightarrow> process_groups parse_hex initial_value trie gs)"

text \<open>
  The three ranges written after the loop (source lines 284 to 290), each with the
  value \<open>1\<close>.
\<close>

definition override_ranges :: "submission list" where
  "override_ranges =
     [SetRange 0x2500 0x259F 1, SetRange 0x4DC0 0x4DFF 1, SetRange 0xFE20 0xFE2F 1]"

fun submit_all :: "UMutableCPTrie \<Rightarrow> submission list \<Rightarrow> error + UMutableCPTrie" where
  "submit_all mutable_trie [] = Inr mutable_trie"
| "submit_all mutable_trie (s # ss) =
     (case submit mutable_trie s of Inl e \<Rightarrow> Inl e | Inr trie \<Rightarrow> submit_all trie ss)"

text \<open>
  Source lines 187 to 189: the default value, the error value, the empty trie.
\<close>

definition open_trie :: "error + int \<times> UMutableCPTrie" where
  "open_trie =
     (case build_trie_value OTHER Narrow of
        Inl e \<Rightarrow> Inl e
      | Inr initial_value \<Rightarrow>
          (case build_trie_value OTHER Ambiguous of
             Inl e \<Rightarrow> Inl e
           | Inr error_value \<Rightarrow>
               (case umutablecptrie_open initial_value error_value of
                  Inl e \<Rightarrow> Inl e
                | Inr mutable_trie \<Rightarrow> Inr (initial_value, mutable_trie))))"

text \<open>
  \<^verbatim>\<open>main\<close> from the parsed document to the immutable trie. Reading the document before
  and serializing and printing the trie after are input and output and are left out.
\<close>

definition main :: "(string \<Rightarrow> error + int) \<Rightarrow> group list \<Rightarrow> error + UCPTrie" where
  "main parse_hex root =
     (case open_trie of
        Inl e \<Rightarrow> Inl e
      | Inr (initial_value, mutable_trie) \<Rightarrow>
          (case process_groups parse_hex initial_value mutable_trie root of
             Inl e \<Rightarrow> Inl e
           | Inr trie1 \<Rightarrow>
               (case submit_all trie1 override_ranges of
                  Inl e \<Rightarrow> Inl e
                | Inr trie2 \<Rightarrow>
                    umutablecptrie_buildImmutable trie2
                      UCPTRIE_TYPE_FAST UCPTRIE_VALUE_BITS_8)))"

text \<open>What the consumer reads from the generated table at the query \<open>c\<close>.\<close>

definition main_lookup :: "(string \<Rightarrow> error + int) \<Rightarrow> group list \<Rightarrow> int \<Rightarrow> error + int" where
  "main_lookup parse_hex root c =
     (case main parse_hex root of
        Inl e \<Rightarrow> Inl e
      | Inr trie \<Rightarrow> Inr (uint (ucptrie_get trie c)))"

section \<open>Submissions as the specification reads them\<close>

fun sub_start :: "submission \<Rightarrow> int" where
  "sub_start (Set c v) = c"
| "sub_start (SetRange start end' v) = start"

fun sub_end :: "submission \<Rightarrow> int" where
  "sub_end (Set c v) = c"
| "sub_end (SetRange start end' v) = end'"

fun sub_value :: "submission \<Rightarrow> int" where
  "sub_value (Set c v) = v"
| "sub_value (SetRange start end' v) = v"

text \<open>The range of a submission contains the code point \<open>c\<close>.\<close>

definition covers :: "submission \<Rightarrow> int \<Rightarrow> bool" where
  "covers s c = (sub_start s \<le> c \<and> c \<le> sub_end s)"

text \<open>
  A range assignment of the data model: an inclusive range of code points of
  \<open>[0, 0x10FFFF]\<close> and an 8-bit packed value.
\<close>

definition wf_submission :: "submission \<Rightarrow> bool" where
  "wf_submission s =
     (0 \<le> sub_start s \<and> sub_start s \<le> sub_end s \<and> sub_end s \<le> 0x10FFFF
      \<and> 0 \<le> sub_value s \<and> sub_value s < 256)"

text \<open>
  The value of the last submission, in submission order, whose range contains \<open>c\<close>;
  \<open>None\<close> when no submission covers \<open>c\<close>.
\<close>

definition last_covering :: "submission list \<Rightarrow> int \<Rightarrow> int option" where
  "last_covering R c =
     (case filter (\<lambda>s. covers s c) R of
        [] \<Rightarrow> None
      | s # ss \<Rightarrow> Some (sub_value (last (s # ss))))"

text \<open>
  The lookup of \<open>c\<close> in the trie opened with a default and an error value, given the
  submissions \<open>R\<close> in order and finalized as \<^verbatim>\<open>main\<close> does (fast type, 8-bit values).
\<close>

definition built_lookup :: "UMutableCPTrie \<Rightarrow> int \<Rightarrow> error + int" where
  "built_lookup mutable_trie c =
     (case umutablecptrie_buildImmutable mutable_trie
             UCPTRIE_TYPE_FAST UCPTRIE_VALUE_BITS_8 of
        Inl e \<Rightarrow> Inl e
      | Inr trie \<Rightarrow> Inr (uint (ucptrie_get trie c)))"

definition finalized_lookup :: "int \<Rightarrow> int \<Rightarrow> submission list \<Rightarrow> int \<Rightarrow> error + int" where
  "finalized_lookup initial_value error_value R c =
     (case umutablecptrie_open initial_value error_value of
        Inl e \<Rightarrow> Inl e
      | Inr mutable_trie \<Rightarrow>
          (case submit_all mutable_trie R of
             Inl e \<Rightarrow> Inl e
           | Inr trie \<Rightarrow> built_lookup trie c))"

text \<open>The union of the three ranges the comments of the source name.\<close>

definition in_override_ranges :: "int \<Rightarrow> bool" where
  "in_override_ranges c =
     (0x2500 \<le> c \<and> c \<le> 0x259F \<or> 0x4DC0 \<le> c \<and> c \<le> 0x4DFF \<or> 0xFE20 \<le> c \<and> c \<le> 0xFE2F)"

text \<open>
  The submissions of the loop, collected in order: those \<^verbatim>\<open>main\<close> makes, and those it
  would make without the \<^verbatim>\<open>continue\<close>.
\<close>

fun chars_submissions ::
  "(string \<Rightarrow> error + int) \<Rightarrow> int \<Rightarrow> element \<Rightarrow> element list \<Rightarrow> error + submission list" where
  "chars_submissions parse_hex initial_value grp [] = Inr []"
| "chars_submissions parse_hex initial_value grp (char # chars) =
     (case char_submission parse_hex initial_value grp char of
        Inl e \<Rightarrow> Inl e
      | Inr so \<Rightarrow>
          (case chars_submissions parse_hex initial_value grp chars of
             Inl e \<Rightarrow> Inl e
           | Inr ss \<Rightarrow> Inr ((case so of None \<Rightarrow> [] | Some s \<Rightarrow> [s]) @ ss)))"

fun groups_submissions ::
  "(string \<Rightarrow> error + int) \<Rightarrow> int \<Rightarrow> group list \<Rightarrow> error + submission list" where
  "groups_submissions parse_hex initial_value [] = Inr []"
| "groups_submissions parse_hex initial_value (g # gs) =
     (case chars_submissions parse_hex initial_value (group_attrs g) (children g) of
        Inl e \<Rightarrow> Inl e
      | Inr ss \<Rightarrow>
          (case groups_submissions parse_hex initial_value gs of
             Inl e \<Rightarrow> Inl e
           | Inr ss' \<Rightarrow> Inr (ss @ ss')))"

definition char_submission_unskipped ::
  "(string \<Rightarrow> error + int) \<Rightarrow> element \<Rightarrow> element \<Rightarrow> error + submission" where
  "char_submission_unskipped parse_hex grp char =
     (case char_value grp char of
        Inl e \<Rightarrow> Inl e
      | Inr v \<Rightarrow> char_call parse_hex char v)"

fun chars_submissions_unskipped ::
  "(string \<Rightarrow> error + int) \<Rightarrow> element \<Rightarrow> element list \<Rightarrow> error + submission list" where
  "chars_submissions_unskipped parse_hex grp [] = Inr []"
| "chars_submissions_unskipped parse_hex grp (char # chars) =
     (case char_submission_unskipped parse_hex grp char of
        Inl e \<Rightarrow> Inl e
      | Inr s \<Rightarrow>
          (case chars_submissions_unskipped parse_hex grp chars of
             Inl e \<Rightarrow> Inl e
           | Inr ss \<Rightarrow> Inr (s # ss)))"

fun groups_submissions_unskipped ::
  "(string \<Rightarrow> error + int) \<Rightarrow> group list \<Rightarrow> error + submission list" where
  "groups_submissions_unskipped parse_hex [] = Inr []"
| "groups_submissions_unskipped parse_hex (g # gs) =
     (case chars_submissions_unskipped parse_hex (group_attrs g) (children g) of
        Inl e \<Rightarrow> Inl e
      | Inr ss \<Rightarrow>
          (case groups_submissions_unskipped parse_hex gs of
             Inl e \<Rightarrow> Inl e
           | Inr ss' \<Rightarrow> Inr (ss @ ss')))"

section \<open>The tables of the specification\<close>

text \<open>
  The specification gives the two mappings as tables; they are written here as association
  lists, to be compared with the \<^verbatim>\<open>match\<close> statements of the source.
\<close>

definition gcb_table :: "(string \<times> ClusterBreak) list" where
  "gcb_table =
     [(''XX'', OTHER), (''CR'', CONTROL), (''LF'', CONTROL), (''CN'', CONTROL),
      (''EX'', EXTEND), (''SM'', EXTEND), (''PP'', PREPEND), (''ZWJ'', ZERO_WIDTH_JOINER),
      (''RI'', REGIONAL_INDICATOR), (''L'', HANGUL_L), (''V'', HANGUL_V), (''T'', HANGUL_T),
      (''LV'', HANGUL_LV), (''LVT'', HANGUL_LVT)]"

definition ea_table :: "(string \<times> CharacterWidth) list" where
  "ea_table =
     [(''N'', Narrow), (''Na'', Narrow), (''H'', Narrow), (''F'', Wide), (''W'', Wide),
      (''A'', Ambiguous)]"

definition table_lookup :: "(string \<times> 'a) list \<Rightarrow> string option \<Rightarrow> 'a option" where
  "table_lookup tab code = (case code of None \<Rightarrow> None | Some s \<Rightarrow> map_of tab s)"

text \<open>The submissions left when those carrying the default value are dropped.\<close>

definition drop_default :: "int \<Rightarrow> submission list \<Rightarrow> submission list" where
  "drop_default initial_value R = filter (\<lambda>s. sub_value s \<noteq> initial_value) R"

text \<open>
  For runs on concrete documents: the conversion of a non-empty string of hexadecimal
  digits, the form in which the UCD writes code points. On these strings it agrees with
  \<^verbatim>\<open>int(s, 16)\<close>; it refuses every other string, where Python also accepts a sign, a
  \<^verbatim>\<open>0x\<close> prefix, underscores and surrounding white space.
\<close>

definition hex_digit :: "char \<Rightarrow> int option" where
  "hex_digit ch =
     map_of (zip ''0123456789ABCDEF'' [0, 1, 2, 3, 4, 5, 6, 7, 8, 9, 10, 11, 12, 13, 14, 15]
             @ zip ''abcdef'' [10, 11, 12, 13, 14, 15]) ch"

fun hex_digits :: "int \<Rightarrow> string \<Rightarrow> error + int" where
  "hex_digits n [] = Inr n"
| "hex_digits n (ch # cs) =
     (case hex_digit ch of None \<Rightarrow> Inl ValueError | Some d \<Rightarrow> hex_digits (16 * n + d) cs)"

definition hex_int :: "string \<Rightarrow> error + int" where
  "hex_int s = (if s = [] then Inl ValueError else hex_digits 0 s)"

text \<open>
  A small document in the form of the UCD: one group whose attributes its children
  inherit, with the letter U+0041, the combining mark U+0301, the box-drawing character
  U+2500, the ideographs U+4E00 to U+9FFF and the emoji U+1F600.
\<close>

definition no_attrs :: element where
  "no_attrs =
     \<lparr>attr_gc = None, attr_GCB = None, attr_InCB = None, attr_Emoji = None,
      attr_EPres = None, attr_ExtPict = None, attr_ea = None, attr_cp = None,
      attr_first_cp = None, attr_last_cp = None\<rparr>"

definition sample_root :: "group list" where
  "sample_root =
     [\<lparr>group_attrs =
         no_attrs\<lparr>attr_gc := Some ''Lu'', attr_GCB := Some ''XX'', attr_InCB := Some ''None'',
           attr_Emoji := Some ''N'', attr_EPres := Some ''N'', attr_ExtPict := Some ''N'',
           attr_ea := Some ''Na''\<rparr>,
       children =
         [no_attrs\<lparr>attr_cp := Some ''0041''\<rparr>,
          no_attrs\<lparr>attr_cp := Some ''0301'', attr_gc := Some ''Mn'', attr_GCB := Some ''EX'',
            attr_ea := Some ''A''\<rparr>,
          no_attrs\<lparr>attr_cp := Some ''2500'', attr_gc := Some ''So'', attr_ea := Some ''A''\<rparr>,
          no_attrs\<lparr>attr_first_cp := Some ''4E00'', attr_last_cp := Some ''9FFF'',
            attr_gc := Some ''Lo'', attr_ea := Some ''W''\<rparr>,
          no_attrs\<lparr>attr_cp := Some ''1F600'', attr_gc := Some ''So'', attr_Emoji := Some ''Y'',
            attr_EPres := Some ''Y'', attr_ExtPict := Some ''Y'', attr_ea := Some ''W''\<rparr>]\<rparr>]"

section \<open>Properties of the packed value\<close>

lemma build_trie_value_eq:
  "build_trie_value cb w = Inr (ClusterBreak_value cb + 64 * CharacterWidth_value w)"
  by (cases cb; cases w)
    (simp_all add: build_trie_value_def CLUSTER_BREAK_MASK_def CHARACTER_WIDTH_MASK_def
      CLUSTER_BREAK_SHIFT_def CHARACTER_WIDTH_SHIFT_def)

lemma build_trie_value_packed:
  "build_trie_value cb w = Inr v \<Longrightarrow> 0 \<le> v \<and> v < 256"
  by (cases cb; cases w) (auto simp add: build_trie_value_eq)

text \<open>
  C3. For every member \<open>cb\<close> of ClusterBreak (values 0 to 12) and every member \<open>w\<close> of
  CharacterWidth (values 0 to 3), \<^verbatim>\<open>build_trie_value(cb, w)\<close> returns a value: neither
  assertion fires. The value is below 256, its bits 4 and 5 are zero, and the two
  extraction macros of the generated header give back the numeric values of \<open>cb\<close> and
  of \<open>w\<close>.
\<close>

theorem build_trie_value_roundtrip:
  "0 \<le> ClusterBreak_value cb \<and> ClusterBreak_value cb \<le> 12
   \<and> 0 \<le> CharacterWidth_value w \<and> CharacterWidth_value w \<le> 3
   \<and> (\<exists>v. build_trie_value cb w = Inr v \<and> 0 \<le> v \<and> v < 256
          \<and> drop_bit 4 v AND 3 = 0
          \<and> INTO_CLUSTER_BREAK v = ClusterBreak_value cb
          \<and> INTO_CHARACTER_WIDTH v = CharacterWidth_value w)"
  by (cases cb; cases w)
    (simp_all add: build_trie_value_def INTO_CLUSTER_BREAK_def INTO_CHARACTER_WIDTH_def
      CLUSTER_BREAK_MASK_def CHARACTER_WIDTH_MASK_def
      CLUSTER_BREAK_SHIFT_def CHARACTER_WIDTH_SHIFT_def)

section \<open>Properties of the classification\<close>

text \<open>
  C5. The grapheme-cluster-break code is mapped to a ClusterBreak exactly as the table
  of the specification says (XX to Other; CR, LF, CN to Control; EX, SM to Extend; PP to
  Prepend; ZWJ to ZeroWidthJoiner; RI to RegionalIndicator; L, V, T, LV, LVT to the five
  Hangul classes), and the mapping raises, with the unrecognized-GCB error, if and only if
  the code is none of the strings of the table (an absent attribute included).
\<close>

theorem gcb_cluster_break_table:
  "gcb_cluster_break char_gcb =
     (case table_lookup gcb_table char_gcb of
        Some cb \<Rightarrow> Inr cb
      | None \<Rightarrow> Inl (UnrecognizedGCB char_gcb))
   \<and> (isl (gcb_cluster_break char_gcb) \<longleftrightarrow>
        char_gcb \<notin> Some ` {''XX'', ''CR'', ''LF'', ''CN'', ''EX'', ''SM'', ''PP'', ''ZWJ'',
                            ''RI'', ''L'', ''V'', ''T'', ''LV'', ''LVT''})"
  by (cases char_gcb) (auto simp add: gcb_cluster_break_def table_lookup_def gcb_table_def)

text \<open>
  C6. With the extended-pictographic flag "Y" the run fails with an assertion unless the
  ClusterBreak of the GCB table is Other, which becomes ExtendedPictographic; with the
  indic-conjunct-break code "Linker" it fails with an assertion unless the ClusterBreak
  at that point is Extend, which becomes ConjunctLinker. The extended-pictographic check
  comes first, so a child with both marks always fails.
\<close>

theorem char_cluster_break_overrides:
  "extpict_override (Some ''Y'') cb =
     (if cb = OTHER then Inr EXTENDED_PICTOGRAPHIC else Inl AssertionError)
   \<and> incb_override (Some ''Linker'') cb =
     (if cb = EXTEND then Inr CONJUNCT_LINKER else Inl AssertionError)
   \<and> char_cluster_break char_gcb char_extpict char_incb =
     (case gcb_cluster_break char_gcb of
        Inl e \<Rightarrow> Inl e
      | Inr cb0 \<Rightarrow>
          (if char_extpict = Some ''Y'' then
             (if cb0 = OTHER \<and> char_incb \<noteq> Some ''Linker'' then Inr EXTENDED_PICTOGRAPHIC
              else Inl AssertionError)
           else if char_incb = Some ''Linker'' then
             (if cb0 = EXTEND then Inr CONJUNCT_LINKER else Inl AssertionError)
           else Inr cb0))"
  by (simp add: char_cluster_break_def extpict_override_def incb_override_def
      split: sum.split)

lemma char_width_no_category:
  "char_width None char_emoji char_epres char_ea = Inl AttributeError"
  by (simp add: char_width_def)

lemma char_width_with_category:
  "char_width (Some gc) char_emoji char_epres char_ea =
     (if startswith gc ''M'' then Inr ZeroWidth
      else if char_emoji = Some ''Y'' \<and> char_epres = Some ''Y'' then Inr Wide
      else (case table_lookup ea_table char_ea of
              Some w \<Rightarrow> Inr w
            | None \<Rightarrow> Inl (UnrecognizedEA char_ea)))"
  by (cases char_ea) (auto simp add: char_width_def ea_width_def table_lookup_def ea_table_def)

text \<open>
  C4, as amended. The width derivation first needs the effective general category: when
  neither the child nor its group carries one, it raises (AttributeError, at
  \<^verbatim>\<open>char_gc.startswith\<close>) whatever the other attributes are. Otherwise it follows this
  priority: a general category starting with "M" gives ZeroWidth; otherwise the emoji
  flag and the emoji-presentation flag both "Y" give Wide; otherwise the
  east-asian-width code is mapped by the table (N, Na, H to Narrow; F, W to Wide; A to
  Ambiguous). The derivation raises if and only if the general category is absent, or it
  reaches the third branch and the code is none of the six strings of the table (an
  absent attribute included).
\<close>

theorem char_width_priority:
  "char_width char_gc char_emoji char_epres char_ea =
     (case char_gc of
        None \<Rightarrow> Inl AttributeError
      | Some gc \<Rightarrow>
          (if startswith gc ''M'' then Inr ZeroWidth
           else if char_emoji = Some ''Y'' \<and> char_epres = Some ''Y'' then Inr Wide
           else (case table_lookup ea_table char_ea of
                   Some w \<Rightarrow> Inr w
                 | None \<Rightarrow> Inl (UnrecognizedEA char_ea))))
   \<and> (isl (char_width char_gc char_emoji char_epres char_ea) \<longleftrightarrow>
        (case char_gc of
           None \<Rightarrow> True
         | Some gc \<Rightarrow>
             \<not> startswith gc ''M''
             \<and> \<not> (char_emoji = Some ''Y'' \<and> char_epres = Some ''Y'')
             \<and> char_ea \<notin> Some ` {''N'', ''Na'', ''H'', ''F'', ''W'', ''A''}))"
proof (cases char_gc)
  case None
  then show ?thesis by (simp add: char_width_no_category)
next
  case (Some gc)
  have "table_lookup ea_table char_ea = None \<longleftrightarrow>
      char_ea \<notin> Some ` {''N'', ''Na'', ''H'', ''F'', ''W'', ''A''}"
    by (cases char_ea) (auto simp add: table_lookup_def ea_table_def)
  with Some show ?thesis
    by (auto simp add: char_width_with_category split: option.splits)
qed

text \<open>
  The claim as stated fails for a child with no effective general category: with both
  emoji flags "Y" and the east-asian-width code W, which the table maps to Wide, the
  claim gives Wide and no error, and the source raises before it reads either.
\<close>

theorem char_width_no_category_counterexample:
  "char_width None (Some ''Y'') (Some ''Y'') (Some ''W'') = Inl AttributeError
   \<and> char_width None (Some ''Y'') (Some ''Y'') (Some ''W'') \<noteq> Inr Wide
   \<and> table_lookup ea_table (Some ''W'') = Some Wide"
  by (simp add: char_width_def table_lookup_def ea_table_def)

text \<open>
  On the whole classification of a child: it ends in the unrecognized-GCB error exactly
  when the effective GCB code is outside the table, and in the unrecognized-ea error
  exactly when the cluster break was derived, the general category is present and does
  not start with "M", the two emoji flags are not both "Y", and the effective ea code is
  outside the table.
\<close>

lemma char_value_unrecognized_gcb:
  "(\<exists>g. char_value grp char = Inl (UnrecognizedGCB g)) \<longleftrightarrow>
   table_lookup gcb_table (py_or (attr_GCB char) (attr_GCB grp)) = None"
proof -
  let ?g = "py_or (attr_GCB char) (attr_GCB grp)"
  have t: "gcb_cluster_break ?g =
      (case table_lookup gcb_table ?g of Some cb \<Rightarrow> Inr cb | None \<Rightarrow> Inl (UnrecognizedGCB ?g))"
    by (cases ?g) (simp_all add: gcb_cluster_break_def table_lookup_def gcb_table_def)
  show ?thesis
  proof (cases "table_lookup gcb_table ?g")
    case None
    with t show ?thesis
      by (simp add: char_value_def char_cluster_break_def)
  next
    case (Some cb)
    with t show ?thesis
      by (auto simp add: char_value_def char_cluster_break_def extpict_override_def
          incb_override_def char_width_def ea_width_def build_trie_value_eq
          split: sum.splits option.splits if_splits)
  qed
qed

lemma char_value_unrecognized_ea:
  "(\<exists>a. char_value grp char = Inl (UnrecognizedEA a)) \<longleftrightarrow>
   (\<exists>cb gc.
      char_cluster_break (py_or (attr_GCB char) (attr_GCB grp))
        (py_or (attr_ExtPict char) (attr_ExtPict grp))
        (py_or (attr_InCB char) (attr_InCB grp)) = Inr cb
      \<and> py_or (attr_gc char) (attr_gc grp) = Some gc
      \<and> \<not> startswith gc ''M''
      \<and> \<not> (py_or (attr_Emoji char) (attr_Emoji grp) = Some ''Y''
           \<and> py_or (attr_EPres char) (attr_EPres grp) = Some ''Y'')
      \<and> table_lookup ea_table (py_or (attr_ea char) (attr_ea grp)) = None)"
proof -
  let ?a = "py_or (attr_ea char) (attr_ea grp)"
  have t: "ea_width ?a =
      (case table_lookup ea_table ?a of Some w \<Rightarrow> Inr w | None \<Rightarrow> Inl (UnrecognizedEA ?a))"
    by (cases ?a) (simp_all add: ea_width_def table_lookup_def ea_table_def)
  have c: "char_cluster_break g x i \<noteq> Inl (UnrecognizedEA a)" for g x i a
    by (auto simp add: char_cluster_break_def gcb_cluster_break_def extpict_override_def
        incb_override_def split: sum.splits if_splits)
  show ?thesis
    using c
    by (auto simp add: char_value_def char_width_def t build_trie_value_eq
        split: sum.splits option.splits if_splits)
qed

section \<open>The trie keeps the last write\<close>

lemma unat_codepoint:
  "0 \<le> c \<Longrightarrow> c \<le> 0x10FFFF \<Longrightarrow> unat (word_of_int c :: uint32) = nat c"
  by (simp add: unat_eq_nat_uint uint_word_of_int take_bit_eq_mod)

lemma uint_and_0xFF: "uint ((w :: uint32) AND 0xFF) = uint w mod 256"
proof -
  have m: "(0xFF :: uint32) = mask 8" by (simp add: mask_eq_exp_minus_1)
  have "w AND 0xFF = take_bit 8 w" by (simp only: m take_bit_eq_mask)
  then have "uint (w AND 0xFF) = take_bit 8 (uint w)"
    by (simp add: unsigned_take_bit_eq)
  then show ?thesis by (simp add: take_bit_eq_mod)
qed

lemma uint_packed:
  "0 \<le> v \<Longrightarrow> v < 256 \<Longrightarrow> uint ((word_of_int v :: uint32) AND 0xFF) = v"
  by (simp add: uint_and_0xFF uint_word_of_int take_bit_eq_mod)

lemma submit_wf:
  assumes "wf_submission s"
  shows "submit t s =
     Inr (t\<lparr>assigned :=
            (\<lambda>x. if covers s (int x) then Some (word_of_int (sub_value s)) else assigned t x)\<rparr>)"
proof (cases s)
  case (Set c v)
  with assms have c: "0 \<le> c" "c \<le> 0x10FFFF" by (simp_all add: wf_submission_def)
  have f: "(assigned t)(nat c \<mapsto> word_of_int v) =
        (\<lambda>x. if covers (Set c v) (int x) then Some (word_of_int (sub_value (Set c v)))
             else assigned t x)"
    using c by (auto simp add: fun_eq_iff covers_def)
  have n: "\<not> MAX_UNICODE < nat c" using c by (simp add: MAX_UNICODE_def)
  show ?thesis
    unfolding Set
    by (simp only: submit_def submission.case umutablecptrie_set_def
        icu_umutablecptrie_set_def unat_codepoint [OF c] n if_False prod.case
        check_error_def U_ZERO_ERROR_def less_irrefl sum.case f)
next
  case (SetRange a b v)
  with assms have c: "0 \<le> a" "a \<le> b" "b \<le> 0x10FFFF" by (simp_all add: wf_submission_def)
  then have a: "a \<le> 0x10FFFF" "0 \<le> b" by simp_all
  have f: "(\<lambda>x. if nat a \<le> x \<and> x \<le> nat b then Some (word_of_int v :: uint32)
                else assigned t x) =
        (\<lambda>x. if covers (SetRange a b v) (int x)
              then Some (word_of_int (sub_value (SetRange a b v))) else assigned t x)"
    using c by (auto simp add: fun_eq_iff covers_def)
  have n: "\<not> (MAX_UNICODE < nat a \<or> MAX_UNICODE < nat b \<or> nat b < nat a)"
    using c a unfolding MAX_UNICODE_def by arith
  show ?thesis
    unfolding SetRange
    by (simp only: submit_def submission.case umutablecptrie_setRange_def
        icu_umutablecptrie_setRange_def unat_codepoint [OF c(1) a(1)]
        unat_codepoint [OF a(2) c(3)] n if_False prod.case
        check_error_def U_ZERO_ERROR_def less_irrefl sum.case f)
qed

lemma last_covering_Nil: "last_covering [] c = None"
  by (simp add: last_covering_def)

lemma last_covering_Cons:
  "last_covering (s # R) c =
     (case last_covering R c of
        Some v \<Rightarrow> Some v
      | None \<Rightarrow> (if covers s c then Some (sub_value s) else None))"
  by (cases "filter (\<lambda>s. covers s c) R") (simp_all add: last_covering_def)

lemma last_covering_append:
  "last_covering (R @ R') c =
     (case last_covering R' c of Some v \<Rightarrow> Some v | None \<Rightarrow> last_covering R c)"
  by (induction R) (simp_all add: last_covering_Cons last_covering_Nil split: option.split)

lemma submit_all_wf:
  assumes "list_all wf_submission R"
  shows "submit_all t R =
     Inr (t\<lparr>assigned :=
            (\<lambda>x. case last_covering R (int x) of
                    None \<Rightarrow> assigned t x
                  | Some v \<Rightarrow> Some (word_of_int v))\<rparr>)"
  using assms
proof (induction R arbitrary: t)
  case Nil
  then show ?case by (simp add: last_covering_Nil)
next
  case (Cons s R)
  then have s: "wf_submission s" and R: "list_all wf_submission R" by simp_all
  show ?case
    by (simp add: submit_wf [OF s] Cons.IH [OF R] last_covering_Cons fun_eq_iff
        split: option.split)
qed


lemma built_lookup_eq:
  "built_lookup t c =
     Inr (if 0 \<le> c \<and> c \<le> 0x10FFFF
          then uint ((case assigned t (nat c) of None \<Rightarrow> initialValue t | Some v \<Rightarrow> v) AND 0xFF)
          else uint (errorValue t AND 0xFF))"
  by (simp add: built_lookup_def umutablecptrie_buildImmutable_def
      icu_umutablecptrie_buildImmutable_def check_error_def U_ZERO_ERROR_def
      ucptrie_get_def width_mask_def MAX_UNICODE_def)

lemma umutablecptrie_open_eq:
  "umutablecptrie_open iv ev =
     Inr \<lparr>initialValue = word_of_int iv, errorValue = word_of_int ev, assigned = Map.empty\<rparr>"
  by (simp add: umutablecptrie_open_def icu_umutablecptrie_open_def check_error_def
      U_ZERO_ERROR_def)

lemma list_all_covering_value:
  "list_all wf_submission R \<Longrightarrow> last_covering R c = Some v \<Longrightarrow> 0 \<le> v \<and> v < 256"
  by (induction R)
    (auto simp add: last_covering_Nil last_covering_Cons wf_submission_def
      split: option.splits if_splits)

lemma finalized_lookup_wf:
  assumes "list_all wf_submission R"
  shows "finalized_lookup iv ev R c =
     Inr (if 0 \<le> c \<and> c \<le> 0x10FFFF
          then (case last_covering R c of
                  None \<Rightarrow> uint ((word_of_int iv :: uint32) AND 0xFF)
                | Some v \<Rightarrow> v)
          else uint ((word_of_int ev :: uint32) AND 0xFF))"
proof -
  have v: "uint ((word_of_int v :: uint32) AND 0xFF) = v" if "last_covering R c = Some v" for v
    using list_all_covering_value [OF assms that] by (simp add: uint_packed)
  have "finalized_lookup iv ev R c =
      built_lookup
        \<lparr>initialValue = word_of_int iv, errorValue = word_of_int ev,
         assigned = (\<lambda>x. case last_covering R (int x) of
                            None \<Rightarrow> None
                          | Some v \<Rightarrow> Some (word_of_int v))\<rparr> c"
    by (simp add: finalized_lookup_def umutablecptrie_open_eq submit_all_wf [OF assms]
        cong: option.case_cong)
  then show ?thesis
    by (auto simp add: built_lookup_eq v split: option.split)
qed

text \<open>
  C2. For any finite sequence \<open>R\<close> of submissions made through \<^verbatim>\<open>umutablecptrie_set\<close> and
  \<^verbatim>\<open>umutablecptrie_setRange\<close> (inclusive ranges of code points, 8-bit values) and every
  code point \<open>c\<close> of \<open>[0, 0x10FFFF]\<close>, the finalized trie is built and its lookup of \<open>c\<close>
  returns the value of the last submission of \<open>R\<close> whose range contains \<open>c\<close>, or the
  initial value when no submission covers \<open>c\<close>.
\<close>

theorem lookup_last_write_wins:
  assumes "list_all wf_submission R" and "0 \<le> iv" and "iv < 256"
    and "0 \<le> c" and "c \<le> 0x10FFFF"
  shows "finalized_lookup iv ev R c =
     Inr (case last_covering R c of None \<Rightarrow> iv | Some v \<Rightarrow> v)"
  using assms by (simp add: finalized_lookup_wf uint_packed split: option.split)

theorem lookup_last_write_wins_witness:
  "list_all wf_submission [SetRange 0x300 0x36F 0, Set 0x301 2, Set 0x41 65]
   \<and> finalized_lookup 64 192 [SetRange 0x300 0x36F 0, Set 0x301 2, Set 0x41 65] 0x301 = Inr 2
   \<and> finalized_lookup 64 192 [SetRange 0x300 0x36F 0, Set 0x301 2, Set 0x41 65] 0x302 = Inr 0
   \<and> finalized_lookup 64 192 [SetRange 0x300 0x36F 0, Set 0x301 2, Set 0x41 65] 0x42 = Inr 64"
  using lookup_last_write_wins [of "[SetRange 0x300 0x36F 0, Set 0x301 2, Set 0x41 65]" 64 "0x301" 192]
    lookup_last_write_wins [of "[SetRange 0x300 0x36F 0, Set 0x301 2, Set 0x41 65]" 64 "0x302" 192]
    lookup_last_write_wins [of "[SetRange 0x300 0x36F 0, Set 0x301 2, Set 0x41 65]" 64 "0x42" 192]
  by (simp add: wf_submission_def last_covering_def covers_def)

section \<open>The loop of the generator as a sequence of submissions\<close>

lemma submit_all_append:
  "submit_all t (R @ R') =
     (case submit_all t R of Inl e \<Rightarrow> Inl e | Inr t' \<Rightarrow> submit_all t' R')"
  by (induction R arbitrary: t) (simp_all split: sum.split)

lemma process_chars_submissions:
  "chars_submissions parse_hex iv grp chars = Inr ss \<Longrightarrow>
   process_chars parse_hex iv t grp chars = submit_all t ss"
proof (induction chars arbitrary: t ss)
  case Nil
  then show ?case by simp
next
  case (Cons char chars)
  then show ?case
    by (auto simp add: process_char_def split: sum.splits option.splits)
qed

lemma process_groups_submissions:
  "groups_submissions parse_hex iv gs = Inr R \<Longrightarrow>
   process_groups parse_hex iv t gs = submit_all t R"
proof (induction gs arbitrary: t R)
  case Nil
  then show ?case by simp
next
  case (Cons g gs)
  then show ?case
    by (auto simp add: process_chars_submissions submit_all_append split: sum.splits)
qed

lemma open_trie_eq:
  "open_trie = Inr (64, \<lparr>initialValue = 64, errorValue = 192, assigned = Map.empty\<rparr>)"
  by (simp add: open_trie_def build_trie_value_eq umutablecptrie_open_eq)

lemma main_lookup_submissions:
  assumes "groups_submissions parse_hex 64 root = Inr R"
  shows "main_lookup parse_hex root c = finalized_lookup 64 192 (R @ override_ranges) c"
  by (simp add: main_lookup_def main_def open_trie_eq process_groups_submissions [OF assms]
      finalized_lookup_def umutablecptrie_open_eq submit_all_append built_lookup_def
      split: sum.split)

lemma list_all_wf_override_ranges: "list_all wf_submission override_ranges"
  by (simp add: override_ranges_def wf_submission_def)

lemma last_covering_override_ranges:
  "last_covering override_ranges c = (if in_override_ranges c then Some 1 else None)"
  by (simp add: last_covering_def override_ranges_def covers_def in_override_ranges_def)

lemma main_lookup_wf:
  assumes "groups_submissions parse_hex 64 root = Inr R" and "list_all wf_submission R"
  shows "main_lookup parse_hex root c =
     Inr (if 0 \<le> c \<and> c \<le> 0x10FFFF
          then (if in_override_ranges c then 1
                else (case last_covering R c of None \<Rightarrow> 64 | Some v \<Rightarrow> v))
          else 192)"
proof -
  have "list_all wf_submission (R @ override_ranges)"
    using assms(2) list_all_wf_override_ranges by simp
  then show ?thesis
    by (auto simp add: main_lookup_submissions [OF assms(1)] finalized_lookup_wf
        last_covering_append last_covering_override_ranges split: option.split)
qed


section \<open>Skipping the default value\<close>

lemma wf_submission_drop_default:
  "list_all wf_submission R \<Longrightarrow> list_all wf_submission (drop_default iv R)"
  by (induction R) (simp_all add: drop_default_def)

lemma last_covering_drop_default_None:
  "last_covering (drop_default iv R) c = None \<longleftrightarrow>
   \<not> (\<exists>s \<in> set R. covers s c \<and> sub_value s \<noteq> iv)"
  by (induction R)
    (auto simp add: drop_default_def last_covering_Nil last_covering_Cons split: option.splits)

lemma last_covering_drop_default_Some:
  "last_covering (drop_default iv R) c = Some v \<Longrightarrow> v \<noteq> iv"
  by (induction R)
    (auto simp add: drop_default_def last_covering_Nil last_covering_Cons
      split: option.splits if_splits)

lemma last_covering_None:
  "last_covering R c = None \<longleftrightarrow> \<not> (\<exists>s \<in> set R. covers s c)"
  by (induction R) (auto simp add: last_covering_Nil last_covering_Cons split: option.splits)

lemma last_covering_drop_default_gap:
  assumes "last_covering R c = None"
  shows "last_covering (drop_default iv R) c = None"
proof -
  from assms have "\<not> (\<exists>s \<in> set R. covers s c)" by (simp add: last_covering_None)
  then have "\<not> (\<exists>s \<in> set R. covers s c \<and> sub_value s \<noteq> iv)" by blast
  then show ?thesis by (simp add: last_covering_drop_default_None)
qed

lemma last_covering_drop_default_keep:
  "last_covering R c = Some v \<Longrightarrow> v \<noteq> iv \<Longrightarrow> last_covering (drop_default iv R) c = Some v"
proof (induction R)
  case Nil
  then show ?case by (simp add: last_covering_Nil)
next
  case (Cons s R)
  show ?case
  proof (cases "last_covering R c")
    case None
    from last_covering_drop_default_gap [OF None, of iv]
    have "last_covering (filter (\<lambda>s. sub_value s \<noteq> iv) R) c = None"
      by (simp add: drop_default_def)
    with None Cons.prems show ?thesis
      by (auto simp add: drop_default_def last_covering_Cons split: if_splits)
  next
    case (Some w)
    with Cons show ?thesis
      by (auto simp add: drop_default_def last_covering_Cons)
  qed
qed

lemma skip_default_lookup_iff:
  assumes "list_all wf_submission R" and "0 \<le> iv" and "iv < 256"
    and "0 \<le> c" and "c \<le> 0x10FFFF"
  shows "finalized_lookup iv ev (drop_default iv R) c = finalized_lookup iv ev R c \<longleftrightarrow>
     \<not> (last_covering R c = Some iv \<and> (\<exists>s \<in> set R. covers s c \<and> sub_value s \<noteq> iv))"
proof -
  have iv: "uint ((word_of_int iv :: uint32) AND 0xFF) = iv"
    using assms(2,3) by (simp add: uint_packed)
  have l: "finalized_lookup iv ev (drop_default iv R) c = finalized_lookup iv ev R c \<longleftrightarrow>
      (case last_covering (drop_default iv R) c of None \<Rightarrow> iv | Some v \<Rightarrow> v) =
      (case last_covering R c of None \<Rightarrow> iv | Some v \<Rightarrow> v)"
    using assms(4,5)
    by (simp add: finalized_lookup_wf [OF assms(1)]
        finalized_lookup_wf [OF wf_submission_drop_default [OF assms(1)]] iv
        cong: option.case_cong)
  show ?thesis
  proof (cases "last_covering R c")
    case None
    then have "last_covering (drop_default iv R) c = None"
      by (rule last_covering_drop_default_gap)
    with None show ?thesis by (simp add: l)
  next
    case (Some v)
    show ?thesis
    proof (cases "v = iv")
      case True
      show ?thesis
      proof (cases "last_covering (drop_default iv R) c")
        case None
        with Some True show ?thesis
          using last_covering_drop_default_None [of iv R c] by (simp add: l)
      next
        case (Some w)
        then have "w \<noteq> iv" by (rule last_covering_drop_default_Some)
        moreover have "\<exists>s \<in> set R. covers s c \<and> sub_value s \<noteq> iv"
          using Some last_covering_drop_default_None [of iv R c] by auto
        ultimately show ?thesis using \<open>last_covering R c = Some v\<close> True Some
          by (simp add: l)
      qed
    next
      case False
      with Some show ?thesis
        by (simp add: l last_covering_drop_default_keep)
    qed
  qed
qed

text \<open>
  C8, as amended. For submissions that are range assignments of the data model and every
  code point \<open>c\<close> of \<open>[0, 0x10FFFF]\<close>, dropping the submissions that carry the default
  value leaves the finalized lookup of \<open>c\<close> unchanged, except when the last submission
  covering \<open>c\<close> carries the default value and another submission covering \<open>c\<close> does
  not: there the full run returns the default and the run with the skip returns the
  value the default would have overwritten.
\<close>

theorem skip_default_lookup:
  assumes "list_all wf_submission R" and "0 \<le> iv" and "iv < 256"
    and "0 \<le> c" and "c \<le> 0x10FFFF"
  shows "finalized_lookup iv ev (drop_default iv R) c = finalized_lookup iv ev R c \<longleftrightarrow>
     \<not> (last_covering R c = Some iv \<and> (\<exists>s \<in> set R. covers s c \<and> sub_value s \<noteq> iv))"
  using assms by (rule skip_default_lookup_iff)

theorem skip_default_lookup_witness:
  "list_all wf_submission [SetRange 0x41 0x5A 64, Set 0x301 0]
   \<and> finalized_lookup 64 192 (drop_default 64 [SetRange 0x41 0x5A 64, Set 0x301 0]) 0x41
     = finalized_lookup 64 192 [SetRange 0x41 0x5A 64, Set 0x301 0] 0x41
   \<and> finalized_lookup 64 192 (drop_default 64 [SetRange 0x41 0x5A 64, Set 0x301 0]) 0x301
     = finalized_lookup 64 192 [SetRange 0x41 0x5A 64, Set 0x301 0] 0x301"
  using skip_default_lookup [of "[SetRange 0x41 0x5A 64, Set 0x301 0]" 64 "0x41" 192]
    skip_default_lookup [of "[SetRange 0x41 0x5A 64, Set 0x301 0]" 64 "0x301" 192]
  by (simp add: wf_submission_def last_covering_def covers_def)

text \<open>
  The claim as stated fails where a default-valued submission overwrites an earlier one:
  U+0301 is given the value 0 and then the default 64.
\<close>

theorem skip_default_counterexample:
  "finalized_lookup 64 192 (drop_default 64 [Set 0x301 0, Set 0x301 64]) 0x301
   \<noteq> finalized_lookup 64 192 [Set 0x301 0, Set 0x301 64] 0x301"
  by (simp add: finalized_lookup_wf wf_submission_def drop_default_def last_covering_def
      covers_def)

text \<open>
  The UCD lists every code point once: where at most one submission covers \<open>c\<close>, the
  skip changes nothing.
\<close>

lemma skip_default_disjoint:
  assumes "list_all wf_submission R" and "0 \<le> iv" and "iv < 256"
    and "0 \<le> c" and "c \<le> 0x10FFFF"
    and "length (filter (\<lambda>s. covers s c) R) \<le> 1"
  shows "finalized_lookup iv ev (drop_default iv R) c = finalized_lookup iv ev R c"
proof -
  have "\<not> (last_covering R c = Some iv \<and> (\<exists>s \<in> set R. covers s c \<and> sub_value s \<noteq> iv))"
  proof
    assume a: "last_covering R c = Some iv \<and> (\<exists>s \<in> set R. covers s c \<and> sub_value s \<noteq> iv)"
    then obtain s where s: "s \<in> set (filter (\<lambda>s. covers s c) R)" "sub_value s \<noteq> iv" by auto
    from assms(6) s(1) have "filter (\<lambda>s. covers s c) R = [s]"
      by (cases "filter (\<lambda>s. covers s c) R"; cases "tl (filter (\<lambda>s. covers s c) R)") auto
    with a s(2) show False by (simp add: last_covering_def)
  qed
  then show ?thesis
    using skip_default_lookup_iff [OF assms(1-5)] by simp
qed

section \<open>The tries the generator builds\<close>

lemma hex_int_samples:
  "hex_int ''0041'' = Inr 0x41" "hex_int ''0301'' = Inr 0x301" "hex_int ''2500'' = Inr 0x2500"
  "hex_int ''4E00'' = Inr 0x4E00" "hex_int ''9FFF'' = Inr 0x9FFF" "hex_int ''1F600'' = Inr 0x1F600"
  by (simp_all add: hex_int_def hex_digit_def)

lemma sample_root_submissions:
  "groups_submissions hex_int 64 sample_root =
     Inr [Set 0x301 2, Set 0x2500 192, SetRange 0x4E00 0x9FFF 128, Set 0x1F600 140]"
  by (simp add: sample_root_def no_attrs_def char_submission_def char_value_def py_or_def
      char_cluster_break_def gcb_cluster_break_def extpict_override_def incb_override_def
      char_width_def ea_width_def startswith_def build_trie_value_eq char_call_def int16_def
      hex_int_samples)

lemma sample_root_submissions_unskipped:
  "groups_submissions_unskipped hex_int sample_root =
     Inr [Set 0x41 64, Set 0x301 2, Set 0x2500 192, SetRange 0x4E00 0x9FFF 128, Set 0x1F600 140]"
  by (simp add: sample_root_def no_attrs_def char_submission_unskipped_def char_value_def py_or_def
      char_cluster_break_def gcb_cluster_break_def extpict_override_def incb_override_def
      char_width_def ea_width_def startswith_def build_trie_value_eq char_call_def int16_def
      hex_int_samples)

lemma sample_root_wf:
  "list_all wf_submission [Set 0x301 2, Set 0x2500 192, SetRange 0x4E00 0x9FFF 128, Set 0x1F600 140]"
  by (simp add: wf_submission_def)

lemma submit_errorValue:
  "submit t s = Inr t' \<Longrightarrow> errorValue t' = errorValue t \<and> initialValue t' = initialValue t"
  by (cases s)
    (auto simp add: submit_def umutablecptrie_set_def umutablecptrie_setRange_def
      icu_umutablecptrie_set_def icu_umutablecptrie_setRange_def check_error_def
      U_ZERO_ERROR_def U_ILLEGAL_ARGUMENT_ERROR_def split: if_splits)

lemma submit_all_errorValue:
  "submit_all t R = Inr t' \<Longrightarrow> errorValue t' = errorValue t \<and> initialValue t' = initialValue t"
proof (induction R arbitrary: t)
  case Nil
  then show ?case by simp
next
  case (Cons s R)
  then show ?case
    by (auto split: sum.splits dest: submit_errorValue)
qed

lemma process_chars_errorValue:
  "process_chars parse_hex iv t grp chars = Inr t' \<Longrightarrow>
   errorValue t' = errorValue t \<and> initialValue t' = initialValue t"
proof (induction chars arbitrary: t)
  case Nil
  then show ?case by simp
next
  case (Cons char chars)
  then show ?case
    by (auto simp add: process_char_def split: sum.splits option.splits dest: submit_errorValue)
qed

lemma process_groups_errorValue:
  "process_groups parse_hex iv t gs = Inr t' \<Longrightarrow>
   errorValue t' = errorValue t \<and> initialValue t' = initialValue t"
proof (induction gs arbitrary: t)
  case Nil
  then show ?case by simp
next
  case (Cons g gs)
  then show ?case
    by (auto split: sum.splits dest: process_chars_errorValue)
qed

text \<open>
  Whatever the document, a run of \<^verbatim>\<open>main\<close> that reaches the finalized trie returns
  8-bit values, and the error value 192 for every query outside \<open>[0, 0x10FFFF]\<close>.
\<close>

lemma main_lookup_any_run:
  assumes "main_lookup parse_hex root c = Inr v"
  shows "0 \<le> v \<and> v < 256 \<and> (0 \<le> c \<and> c \<le> 0x10FFFF \<or> v = 192)"
proof -
  from assms obtain t1 t2 where
    t1: "process_groups parse_hex 64 \<lparr>initialValue = 64, errorValue = 192, assigned = Map.empty\<rparr> root = Inr t1"
    and t2: "submit_all t1 override_ranges = Inr t2"
    and v: "built_lookup t2 c = Inr v"
    by (auto simp add: main_lookup_def main_def open_trie_eq built_lookup_def split: sum.splits)
  from process_groups_errorValue [OF t1] submit_all_errorValue [OF t2]
  have "errorValue t2 = 192" by simp
  with v show ?thesis
    by (auto simp add: built_lookup_eq uint_and_0xFF split: if_splits)
qed

text \<open>
  C7. When the classification of the document succeeds and every range it submits lies
  in \<open>[0, 0x10FFFF]\<close>, \<^verbatim>\<open>main\<close> builds the trie, and the lookup of any query \<open>c\<close>
  returns an 8-bit value: for \<open>c\<close> in \<open>[0, 0x10FFFF]\<close> the value of the last submission
  covering \<open>c\<close>, and the default value packed from (Other, Narrow) when \<open>c\<close> was never
  submitted; for any other \<open>c\<close> the error value given when the trie was opened, packed
  from (Other, Ambiguous).
\<close>

theorem main_lookup_total:
  assumes "groups_submissions parse_hex 64 root = Inr R" and "list_all wf_submission R"
  shows "(\<exists>v. main_lookup parse_hex root c = Inr v \<and> 0 \<le> v \<and> v < 256)
     \<and> main_lookup parse_hex root c =
         (if 0 \<le> c \<and> c \<le> 0x10FFFF
          then (case last_covering (R @ override_ranges) c of
                  None \<Rightarrow> build_trie_value OTHER Narrow
                | Some v \<Rightarrow> Inr v)
          else build_trie_value OTHER Ambiguous)"
proof -
  have v: "0 \<le> v \<and> v < 256" if "last_covering R c = Some v" for v
    using list_all_covering_value [OF assms(2) that] .
  show ?thesis
    by (auto simp add: main_lookup_wf [OF assms] last_covering_append
        last_covering_override_ranges build_trie_value_eq v split: option.split)
qed

theorem main_lookup_total_witness:
  "groups_submissions hex_int 64 sample_root =
     Inr [Set 0x301 2, Set 0x2500 192, SetRange 0x4E00 0x9FFF 128, Set 0x1F600 140]
   \<and> list_all wf_submission
        [Set 0x301 2, Set 0x2500 192, SetRange 0x4E00 0x9FFF 128, Set 0x1F600 140]
   \<and> main_lookup hex_int sample_root 0x41 = Inr 64
   \<and> main_lookup hex_int sample_root 0x5000 = Inr 128
   \<and> main_lookup hex_int sample_root 0x110000 = Inr 192
   \<and> main_lookup hex_int sample_root (- 1) = Inr 192"
  using main_lookup_total [OF sample_root_submissions sample_root_wf, of "0x41"]
    main_lookup_total [OF sample_root_submissions sample_root_wf, of "0x5000"]
    main_lookup_total [OF sample_root_submissions sample_root_wf, of "0x110000"]
    main_lookup_total [OF sample_root_submissions sample_root_wf, of "- 1"]
  by (simp add: sample_root_submissions wf_submission_def last_covering_def covers_def
      override_ranges_def build_trie_value_eq)

text \<open>
  C9. The error value given when the trie is opened is the packed pair
  (Other, Ambiguous), the byte 192; the default value is the packed pair (Other, Narrow),
  the byte 64. In the trie as opened a query outside \<open>[0, 0x10FFFF]\<close> returns 192 and a
  code point inside returns 64, and the two differ in the CharacterWidth field
  (Ambiguous against Narrow) and agree in the ClusterBreak field.
\<close>

theorem error_value_distinct:
  "build_trie_value OTHER Ambiguous = Inr 192
   \<and> build_trie_value OTHER Narrow = Inr 64
   \<and> open_trie = Inr (64, \<lparr>initialValue = 64, errorValue = 192, assigned = Map.empty\<rparr>)
   \<and> (case open_trie of Inl e \<Rightarrow> Inl e | Inr (initial_value, mutable_trie) \<Rightarrow>
         built_lookup mutable_trie c) = Inr (if 0 \<le> c \<and> c \<le> 0x10FFFF then 64 else 192)
   \<and> INTO_CHARACTER_WIDTH 192 = CharacterWidth_value Ambiguous
   \<and> INTO_CHARACTER_WIDTH 64 = CharacterWidth_value Narrow
   \<and> INTO_CLUSTER_BREAK 192 = ClusterBreak_value OTHER
   \<and> INTO_CLUSTER_BREAK 64 = ClusterBreak_value OTHER
   \<and> INTO_CHARACTER_WIDTH 192 \<noteq> INTO_CHARACTER_WIDTH 64"
  by (simp add: build_trie_value_eq open_trie_eq built_lookup_eq
      INTO_CHARACTER_WIDTH_def INTO_CLUSTER_BREAK_def
      CHARACTER_WIDTH_SHIFT_def CHARACTER_WIDTH_MASK_def CLUSTER_BREAK_SHIFT_def
      CLUSTER_BREAK_MASK_def)

section \<open>The override pass\<close>

text \<open>
  C10. The override pass writes to the three ranges only: it succeeds on every trie, and
  for every query \<open>c\<close> outside \<open>[0x2500, 0x259F]\<close>, \<open>[0x4DC0, 0x4DFF]\<close> and
  \<open>[0xFE20, 0xFE2F]\<close> the lookup after the pass is the lookup before it.
\<close>

theorem override_frame:
  assumes "\<not> in_override_ranges c"
  shows "\<exists>t'. submit_all t override_ranges = Inr t' \<and> built_lookup t' c = built_lookup t c"
proof -
  have "int (nat c) = c" if "0 \<le> c" using that by simp
  with assms show ?thesis
    by (auto simp add: submit_all_wf [OF list_all_wf_override_ranges] built_lookup_eq
        last_covering_override_ranges cong: option.case_cong)
qed

theorem override_frame_witness:
  "\<not> in_override_ranges 0x41
   \<and> (\<exists>t'. submit_all \<lparr>initialValue = 64, errorValue = 192, assigned = [0x41 \<mapsto> 2]\<rparr>
              override_ranges = Inr t'
          \<and> built_lookup t' 0x41 = Inr 2)"
  using override_frame [of "0x41" "\<lparr>initialValue = 64, errorValue = 192, assigned = [0x41 \<mapsto> 2]\<rparr>"]
  by (simp add: in_override_ranges_def built_lookup_eq)

text \<open>
  C1. The claim: after the override pass every code point of \<open>[0x2500, 0x259F]\<close>,
  \<open>[0x4DC0, 0x4DFF]\<close> and \<open>[0xFE20, 0xFE2F]\<close> has the CharacterWidth field Narrow. The
  source writes the bare number 1 for the three ranges and not the value packed from
  (Other, Narrow), which is 64: on the sample document the lookup of U+2500 returns 1,
  whose width field is ZeroWidth and whose cluster break field is Control.
\<close>

theorem box_drawing_lookup:
  "main_lookup hex_int sample_root 0x2500 = Inr 1
   \<and> INTO_CHARACTER_WIDTH 1 = CharacterWidth_value ZeroWidth
   \<and> INTO_CLUSTER_BREAK 1 = ClusterBreak_value CONTROL
   \<and> INTO_CHARACTER_WIDTH 1 \<noteq> CharacterWidth_value Narrow"
  by (simp add: main_lookup_wf [OF sample_root_submissions sample_root_wf]
      in_override_ranges_def INTO_CHARACTER_WIDTH_def INTO_CLUSTER_BREAK_def
      CHARACTER_WIDTH_SHIFT_def CHARACTER_WIDTH_MASK_def CLUSTER_BREAK_SHIFT_def
      CLUSTER_BREAK_MASK_def)

lemma main_lookup_override_ranges:
  assumes "groups_submissions parse_hex 64 root = Inr R" and "list_all wf_submission R"
    and "in_override_ranges c"
  shows "main_lookup parse_hex root c = Inr 1"
  using assms(3) by (auto simp add: main_lookup_wf [OF assms(1,2)] in_override_ranges_def)

section \<open>The skip in the loop\<close>

lemma char_call_value: "char_call parse_hex char v = Inr s \<Longrightarrow> sub_value s = v"
  by (auto simp add: char_call_def split: option.splits sum.splits)

lemma chars_submissions_skip:
  "chars_submissions_unskipped parse_hex grp chars = Inr R \<Longrightarrow>
   chars_submissions parse_hex iv grp chars = Inr (drop_default iv R)"
proof (induction chars arbitrary: R)
  case Nil
  then show ?case by (simp add: drop_default_def)
next
  case (Cons char chars)
  then show ?case
    by (auto simp add: char_submission_def char_submission_unskipped_def drop_default_def
        dest: char_call_value split: sum.splits)
qed

lemma groups_submissions_skip:
  "groups_submissions_unskipped parse_hex root = Inr R \<Longrightarrow>
   groups_submissions parse_hex iv root = Inr (drop_default iv R)"
proof (induction root arbitrary: R)
  case Nil
  then show ?case by (simp add: drop_default_def)
next
  case (Cons g gs)
  then show ?case
    by (auto simp add: chars_submissions_skip drop_default_def split: sum.splits)
qed

lemma main_lookup_skip:
  assumes "groups_submissions_unskipped parse_hex root = Inr R"
  shows "main_lookup parse_hex root c =
     finalized_lookup 64 192 (drop_default 64 R @ override_ranges) c"
  by (rule main_lookup_submissions [OF groups_submissions_skip [OF assms]])

end
